theory Spec2Isabelle
  imports Main "HOL-Library.AList"
begin

section \<open>Consolidation of appointment sheets: the data\<close>

text \<open>
  The script \<^verbatim>\<open>consolidate_appointments_all_fields.py\<close> reads source sheets, finds
  the rows it has not delivered yet by their SHA-256 fingerprint and inserts them at the
  top of a destination sheet. A cell is a string, a row a list of cells. The ledger
  \<^verbatim>\<open>processed_hashes\<close> is a Python dict from a source key to the list of
  fingerprints; a dict keeps its keys in insertion order, so it is an association list
  read with \<open>map_of\<close> and written with \<open>AList.update\<close>.
\<close>

type_synonym row = "string list"
type_synonym ledger = "(string \<times> string list) list"

datatype py_error = HttpError | UnicodeDecodeError | IndexError | ValueError

text \<open>
  A Python \<^verbatim>\<open>str\<close> is a sequence of Unicode code points; the model keeps it as the
  bytes of its UTF-8 encoding, and the functions that look at characters (stripping,
  the classes of the regular expressions) split the bytes into characters first.
\<close>

text \<open>
  The standard library functions and tables the script uses and whose code is not part
  of the repository: \<^verbatim>\<open>hashlib.sha256(b).hexdigest()\<close>, the parser behind
  \<^verbatim>\<open>json.load\<close> (\<open>None\<close> is \<^verbatim>\<open>json.JSONDecodeError\<close>), the printer behind
  \<^verbatim>\<open>json.dump\<close>, the table \<^verbatim>\<open>unicodedata.decimal\<close> of the decimal digits of
  Unicode (code point to digit value; it is what \<^verbatim>\<open>\d\<close> matches and \<^verbatim>\<open>int\<close>
  reads, and it grows with the version of Unicode), and the limit
  \<^verbatim>\<open>sys.get_int_max_str_digits()\<close> on the digits \<^verbatim>\<open>int\<close> converts (0 for no
  limit). They are parameters of the model.
\<close>

record stdlib =
  sha256_hexdigest :: "string \<Rightarrow> string"
  json_loads :: "string \<Rightarrow> ledger option"
  json_dumps :: "ledger \<Rightarrow> string"
  unicodedata_decimal :: "int \<Rightarrow> int option"
  int_max_str_digits :: nat

subsection \<open>Configuration\<close>

definition COMPANY_COLUMN_NAME :: string where
  "COMPANY_COLUMN_NAME = ''Company''"

definition URL_COLUMN_NAME :: string where
  "URL_COLUMN_NAME = ''Appointment Spreadsheet:''"

definition TARGET_SHEET_NAME :: string where
  "TARGET_SHEET_NAME = ''Sheet1''"

subsection \<open>The fingerprint ledger file\<close>

text \<open>
  \<^verbatim>\<open>open(PROCESSED_HASHES_FILE, 'r')\<close> reads text: the bytes of the file are decoded
  strictly, as UTF-8 on the platforms where the script's own console output (it prints
  characters outside ASCII) works. \<open>utf8_valid\<close> is the set of byte sequences the
  strict decoder accepts; on any other the read inside \<^verbatim>\<open>json.load\<close> raises
  \<^verbatim>\<open>UnicodeDecodeError\<close>, which is not a \<^verbatim>\<open>JSONDecodeError\<close>.
\<close>

definition cont_byte :: "char \<Rightarrow> bool" where
  "cont_byte c = (0x80 \<le> (of_char c :: nat) \<and> (of_char c :: nat) \<le> 0xBF)"

definition in_range :: "nat \<Rightarrow> nat \<Rightarrow> char \<Rightarrow> bool" where
  "in_range lo hi c = (lo \<le> (of_char c :: nat) \<and> (of_char c :: nat) \<le> hi)"

fun utf8_valid :: "char list \<Rightarrow> bool" where
  "utf8_valid [] = True"
| "utf8_valid (a # bs) =
     (if in_range 0x00 0x7F a then utf8_valid bs
      else if in_range 0xC2 0xDF a then
        (case bs of b # r \<Rightarrow> cont_byte b \<and> utf8_valid r | _ \<Rightarrow> False)
      else if in_range 0xE0 0xEF a then
        (case bs of b # c # r \<Rightarrow>
           (if a = CHR 0xE0 then in_range 0xA0 0xBF b
            else if a = CHR 0xED then in_range 0x80 0x9F b
            else cont_byte b) \<and> cont_byte c \<and> utf8_valid r
         | _ \<Rightarrow> False)
      else if in_range 0xF0 0xF4 a then
        (case bs of b # c # d # r \<Rightarrow>
           (if a = CHR 0xF0 then in_range 0x90 0xBF b
            else if a = CHR 0xF4 then in_range 0x80 0x8F b
            else cont_byte b) \<and> cont_byte c \<and> cont_byte d \<and> utf8_valid r
         | _ \<Rightarrow> False)
      else False)"

text \<open>
  \<^verbatim>\<open>load_processed_hashes\<close>: the file is \<open>None\<close> when it does not exist.
\<close>

definition load_processed_hashes :: "stdlib \<Rightarrow> char list option \<Rightarrow> py_error + ledger" where
  "load_processed_hashes L file =
     (case file of
        None \<Rightarrow> Inr []
      | Some bytes \<Rightarrow>
          if \<not> utf8_valid bytes then Inl UnicodeDecodeError
          else (case json_loads L bytes of
                  None \<Rightarrow> Inr []
                | Some d \<Rightarrow> Inr d))"

definition save_processed_hashes :: "stdlib \<Rightarrow> ledger \<Rightarrow> char list option" where
  "save_processed_hashes L hashes = Some (json_dumps L hashes)"

subsection \<open>Row fingerprints\<close>

text \<open>
  \<^verbatim>\<open>get_row_hash\<close>: the cells are strings, so \<^verbatim>\<open>map(str, row)\<close> leaves them
  as they are, \<^verbatim>\<open>"".join\<close> is \<open>concat\<close>, and \<^verbatim>\<open>encode('utf-8')\<close> gives the
  bytes the model holds already.
\<close>

definition get_row_hash :: "stdlib \<Rightarrow> row \<Rightarrow> string" where
  "get_row_hash L row = sha256_hexdigest L (concat row)"

text \<open>
  The loop of \<^verbatim>\<open>main\<close> over \<^verbatim>\<open>data_rows\<close> (lines 411 to 415): \<open>existing\<close> is
  \<^verbatim>\<open>existing_hashes_for_source\<close>, computed once before the loop and never changed by
  it; \<open>found\<close> is \<^verbatim>\<open>newly_found_rows\<close> and \<open>pending\<close> is
  \<^verbatim>\<open>newly_processed_this_run[source_key]\<close>.
\<close>

fun classify_rows :: "stdlib \<Rightarrow> string set \<Rightarrow> row list \<Rightarrow> row list \<Rightarrow> string list
    \<Rightarrow> row list \<times> string list" where
  "classify_rows L existing [] found pending = (found, pending)"
| "classify_rows L existing (row # data_rows) found pending =
     (let row_hash = get_row_hash L row in
      if row_hash \<notin> existing
      then classify_rows L existing data_rows (found @ [row]) (pending @ [row_hash])
      else classify_rows L existing data_rows found pending)"

text \<open>
  The loop over \<^verbatim>\<open>newly_found_rows\<close> (lines 427 to 429): \<open>header\<close> is the first
  row of the source being read. Python's \<^verbatim>\<open>[''] * n\<close> is empty for negative \<open>n\<close>,
  as \<open>replicate\<close> of the truncated difference is.
\<close>

fun pad_rows :: "row \<Rightarrow> string \<Rightarrow> row list \<Rightarrow> row list \<Rightarrow> row list" where
  "pad_rows header company_name [] all_new_rows_for_upload = all_new_rows_for_upload"
| "pad_rows header company_name (row # newly_found_rows) all_new_rows_for_upload =
     (let padded_row = row @ replicate (length header - length row) ''''
      in pad_rows header company_name newly_found_rows
           (all_new_rows_for_upload @ [padded_row @ [company_name]]))"

section \<open>Strings and addresses\<close>

text \<open>
  The characters of a string: the lead byte of a UTF-8 sequence tells its length, and
  the bytes that follow it are continuation bytes (\<open>0x80\<close> to \<open>0xBF\<close>).
  \<open>code_point\<close> is the code point of one character.
\<close>

definition char_len :: "char \<Rightarrow> nat" where
  "char_len a =
     (let n = (of_char a :: nat)
      in if n < 0xC0 then 1 else if n < 0xE0 then 2 else if n < 0xF0 then 3 else 4)"

definition tail_len :: "char \<Rightarrow> string \<Rightarrow> nat" where
  "tail_len a s = length (takeWhile cont_byte (take (char_len a - 1) s))"

fun chars :: "string \<Rightarrow> string list" where
  "chars [] = []"
| "chars (a # s) = (a # take (tail_len a s) s) # chars (drop (tail_len a s) s)"

fun decode :: "int list \<Rightarrow> int" where
  "decode [a] = a"
| "decode [a, b] = (a - 0xC0) * 64 + (b - 0x80)"
| "decode [a, b, d] = ((a - 0xE0) * 64 + (b - 0x80)) * 64 + (d - 0x80)"
| "decode [a, b, d, e] = (((a - 0xF0) * 64 + (b - 0x80)) * 64 + (d - 0x80)) * 64 + (e - 0x80)"
| "decode bs = 0"

definition code_point :: "string \<Rightarrow> int" where
  "code_point c = decode (map of_char c)"

text \<open>
  Python's \<^verbatim>\<open>str.strip()\<close> and the regular expression class \<^verbatim>\<open>\S\<close> use the
  same whitespace: the code points 9 to 13, 28 to 32, U+0085, U+00A0, U+1680, U+2000 to
  U+200A, U+2028, U+2029, U+202F, U+205F and U+3000.
\<close>

definition is_space :: "string \<Rightarrow> bool" where
  "is_space c =
     (let n = code_point c
      in (9 \<le> n \<and> n \<le> 13) \<or> (28 \<le> n \<and> n \<le> 32) \<or> n = 0x85 \<or> n = 0xA0 \<or> n = 0x1680
         \<or> (0x2000 \<le> n \<and> n \<le> 0x200A) \<or> n = 0x2028 \<or> n = 0x2029 \<or> n = 0x202F
         \<or> n = 0x205F \<or> n = 0x3000)"

definition strip :: "string \<Rightarrow> string" where
  "strip s = concat (rev (dropWhile is_space (rev (dropWhile is_space (chars s)))))"

fun starts_with :: "string \<Rightarrow> string \<Rightarrow> bool" where
  "starts_with [] s = True"
| "starts_with (p # ps) [] = False"
| "starts_with (p # ps) (c # cs) = (p = c \<and> starts_with ps cs)"

text \<open>\<open>contains needle s\<close> is Python's \<^verbatim>\<open>needle in s\<close> for a non-empty needle.\<close>

fun contains :: "string \<Rightarrow> string \<Rightarrow> bool" where
  "contains needle [] = starts_with needle []"
| "contains needle (c # cs) = (starts_with needle (c # cs) \<or> contains needle cs)"

text \<open>
  \<open>match_at lit run s\<close> matches, at the start of \<open>s\<close>, the literal \<open>lit\<close> followed by
  one or more characters of a class, greedily, and returns those characters: \<open>run\<close>
  gives the longest prefix of a string made of characters of the class.
  \<open>re_search\<close> is \<^verbatim>\<open>re.search\<close> for such a pattern: the leftmost match.
\<close>

definition match_at :: "string \<Rightarrow> (string \<Rightarrow> string) \<Rightarrow> string \<Rightarrow> string option" where
  "match_at lit run s =
     (if starts_with lit s
      then (let g = run (drop (length lit) s) in if g \<noteq> [] then Some g else None)
      else None)"

fun re_search :: "string \<Rightarrow> (string \<Rightarrow> string) \<Rightarrow> string \<Rightarrow> string option" where
  "re_search lit run [] = None"
| "re_search lit run (c # cs) =
     (case match_at lit run (c # cs) of
        Some g \<Rightarrow> Some g
      | None \<Rightarrow> re_search lit run cs)"

text \<open>The class \<^verbatim>\<open>[a-zA-Z0-9-_]\<close>: its members are single bytes.\<close>

definition is_id_char :: "char \<Rightarrow> bool" where
  "is_id_char c =
     (let n = (of_char c :: nat)
      in (97 \<le> n \<and> n \<le> 122) \<or> (65 \<le> n \<and> n \<le> 90) \<or> (48 \<le> n \<and> n \<le> 57)
         \<or> c = CHR ''-'' \<or> c = CHR ''_'')"

definition id_run :: "string \<Rightarrow> string" where
  "id_run s = takeWhile is_id_char s"

text \<open>The class \<^verbatim>\<open>\S\<close>.\<close>

definition nonspace_run :: "string \<Rightarrow> string" where
  "nonspace_run s = concat (takeWhile (\<lambda>c. \<not> is_space c) (chars s))"

text \<open>The class \<^verbatim>\<open>\d\<close>: every decimal digit of Unicode.\<close>

definition is_decimal :: "stdlib \<Rightarrow> string \<Rightarrow> bool" where
  "is_decimal L c = (unicodedata_decimal L (code_point c) \<noteq> None)"

definition decimal_run :: "stdlib \<Rightarrow> string \<Rightarrow> string" where
  "decimal_run L s = concat (takeWhile (is_decimal L) (chars s))"

text \<open>
  \<^verbatim>\<open>int(s)\<close> on a string of decimal digits, given as its characters, raises
  \<^verbatim>\<open>ValueError\<close> when there is a limit and the string has more digits than it;
  \<^verbatim>\<open>str(n)\<close> on an integer.
\<close>

definition digit_value :: "stdlib \<Rightarrow> string \<Rightarrow> int" where
  "digit_value L c = (case unicodedata_decimal L (code_point c) of Some v \<Rightarrow> v | None \<Rightarrow> 0)"

fun decimal_value :: "stdlib \<Rightarrow> int \<Rightarrow> string list \<Rightarrow> int" where
  "decimal_value L n [] = n"
| "decimal_value L n (c # digits) = decimal_value L (10 * n + digit_value L c) digits"

definition py_int :: "stdlib \<Rightarrow> string list \<Rightarrow> py_error + int" where
  "py_int L digits =
     (if 0 < int_max_str_digits L \<and> int_max_str_digits L < length digits then Inl ValueError
      else Inr (decimal_value L 0 digits))"

fun str_nat :: "nat \<Rightarrow> string" where
  "str_nat n =
     (if n < 10 then [char_of (48 + n)]
      else str_nat (n div 10) @ [char_of (48 + n mod 10)])"

definition str_int :: "int \<Rightarrow> string" where
  "str_int i = (if i < 0 then CHR ''-'' # str_nat (nat (- i)) else str_nat (nat i))"

text \<open>
  \<^verbatim>\<open>extract_spreadsheet_info_from_url\<close>: the first of the two patterns that matches
  gives the spreadsheet id (\<open>None\<close> when neither does); the gid defaults to 0. The
  conversion of the gid is the only step that can raise.
\<close>

definition extract_spreadsheet_info_from_url :: "stdlib \<Rightarrow> string \<Rightarrow> py_error + (string option \<times> int)" where
  "extract_spreadsheet_info_from_url L url =
     (let spreadsheet_id =
            (case re_search ''/spreadsheets/d/'' id_run url of
               Some g \<Rightarrow> Some g
             | None \<Rightarrow> re_search ''id='' id_run url)
      in case re_search ''gid='' (decimal_run L) url of
           None \<Rightarrow> Inr (spreadsheet_id, 0)
         | Some g \<Rightarrow>
             (case py_int L (chars g) of
                Inl e \<Rightarrow> Inl e
              | Inr gid \<Rightarrow> Inr (spreadsheet_id, gid)))"

section \<open>The remote service\<close>

text \<open>
  What the Google Sheets service answers when the script reads the master sheet and the
  source sheets is the input of a cycle; \<open>None\<close> is an \<^verbatim>\<open>HttpError\<close>.
  \<^item> \<open>master_header_res\<close>: the read of row 1 of the master sheet; the inner option is
    the \<^verbatim>\<open>'values'\<close> key of the answer, absent when the row is empty;
  \<^item> \<open>master_data_res\<close>: the read of \<^verbatim>\<open>A2:ZZ\<close> of the master sheet;
  \<^item> \<open>source_meta\<close>: the tabs (sheetId, title) of a spreadsheet;
  \<^item> \<open>source_values\<close>: the values of \<^verbatim>\<open>A:Q\<close> of a tab of a spreadsheet, empty when
    the answer has no \<^verbatim>\<open>'values'\<close> key.
\<close>

record service =
  master_header_res :: "row list option option"
  master_data_res :: "row list option option"
  source_meta :: "string \<Rightarrow> (int \<times> string) list option"
  source_values :: "string \<Rightarrow> string \<Rightarrow> row list option"

text \<open>
  \<^verbatim>\<open>get_sheet_name_from_gid\<close>: the title of the tab with the given gid, the first
  tab's title when there is none; \<open>None\<close> on an \<^verbatim>\<open>HttpError\<close>. The fallback
  \<^verbatim>\<open>meta['sheets'][0]\<close> raises on a spreadsheet without tabs, and nothing catches it.
\<close>

definition get_sheet_name_from_gid :: "service \<Rightarrow> string \<Rightarrow> int \<Rightarrow> py_error + string option" where
  "get_sheet_name_from_gid S spreadsheet_id gid =
     (case source_meta S spreadsheet_id of
        None \<Rightarrow> Inr None
      | Some sheets \<Rightarrow>
          (case find (\<lambda>sheet. fst sheet = gid) sheets of
             Some sheet \<Rightarrow> Inr (Some (snd sheet))
           | None \<Rightarrow>
               (case sheets of
                  [] \<Rightarrow> Inl IndexError
                | sheet # _ \<Rightarrow> Inr (Some (snd sheet)))))"

definition fetch_entire_sheet :: "service \<Rightarrow> string \<Rightarrow> string \<Rightarrow> row list" where
  "fetch_entire_sheet S spreadsheet_id sheet_name =
     (case source_values S spreadsheet_id sheet_name of
        None \<Rightarrow> []
      | Some vs \<Rightarrow> vs)"

subsection \<open>The source catalog\<close>

text \<open>
  The loop of \<^verbatim>\<open>get_source_sheet_urls\<close> over \<^verbatim>\<open>enumerate(headers)\<close>: the indices
  start at \<open>-1\<close> and the last header that matches wins.
\<close>

fun find_columns :: "row \<Rightarrow> int \<Rightarrow> int \<Rightarrow> int \<Rightarrow> int \<times> int" where
  "find_columns [] i company_col_idx url_col_idx = (company_col_idx, url_col_idx)"
| "find_columns (header # headers) i company_col_idx url_col_idx =
     find_columns headers (i + 1)
       (if strip header = COMPANY_COLUMN_NAME then i else company_col_idx)
       (if strip header = URL_COLUMN_NAME then i else url_col_idx)"

text \<open>The pattern \<^verbatim>\<open>(https?://\S+)\<close>; the group is the whole match.\<close>

fun search_http_url :: "string \<Rightarrow> string option" where
  "search_http_url [] = None"
| "search_http_url (c # cs) =
     (case match_at ''https://'' nonspace_run (c # cs) of
        Some g \<Rightarrow> Some (''https://'' @ g)
      | None \<Rightarrow>
          (case match_at ''http://'' nonspace_run (c # cs) of
             Some g \<Rightarrow> Some (''http://'' @ g)
           | None \<Rightarrow> search_http_url cs))"

text \<open>The loop over the data rows of the master sheet: the (url, name) pairs.\<close>

fun collect_urls :: "int \<Rightarrow> int \<Rightarrow> row list \<Rightarrow> (string \<times> string) list" where
  "collect_urls company_col_idx url_col_idx [] = []"
| "collect_urls company_col_idx url_col_idx (row # values) =
     (if row = [] then collect_urls company_col_idx url_col_idx values
      else if int (length row) \<le> max company_col_idx url_col_idx
      then collect_urls company_col_idx url_col_idx values
      else
        (let company_name = strip (row ! nat company_col_idx);
             cell_url_data = row ! nat url_col_idx
         in if company_name = [] \<or> cell_url_data = []
            then collect_urls company_col_idx url_col_idx values
            else
              (let url = (if contains ''http'' cell_url_data \<and> contains ''spreadsheets'' cell_url_data
                          then strip cell_url_data
                          else (case search_http_url cell_url_data of
                                  Some g \<Rightarrow> g
                                | None \<Rightarrow> []))
               in if url \<noteq> []
                  then (url, company_name) # collect_urls company_col_idx url_col_idx values
                  else collect_urls company_col_idx url_col_idx values)))"

text \<open>The removal of duplicate urls, the first occurrence kept.\<close>

fun unique_sources :: "string list \<Rightarrow> (string \<times> string) list \<Rightarrow> (string \<times> string) list" where
  "unique_sources seen_urls [] = []"
| "unique_sources seen_urls ((url, name) # rest) =
     (if url \<notin> set seen_urls
      then (url, name) # unique_sources (url # seen_urls) rest
      else unique_sources seen_urls rest)"

text \<open>
  \<^verbatim>\<open>get_source_sheet_urls\<close>. The header read comes first; \<^verbatim>\<open>values[0]\<close> of an
  answer whose \<^verbatim>\<open>'values'\<close> is an empty list raises, outside what the
  \<^verbatim>\<open>except HttpError\<close> catches. The data are read only when both columns are found.
\<close>

definition get_source_sheet_urls :: "service \<Rightarrow> py_error + (string \<times> string) list" where
  "get_source_sheet_urls S =
     (case master_header_res S of
        None \<Rightarrow> Inr []
      | Some (Some []) \<Rightarrow> Inl IndexError
      | Some header_values \<Rightarrow>
          (let headers = (case header_values of None \<Rightarrow> [] | Some vs \<Rightarrow> hd vs);
               (company_col_idx, url_col_idx) = find_columns headers 0 (- 1) (- 1)
           in if company_col_idx = - 1 then Inr []
              else if url_col_idx = - 1 then Inr []
              else
                (case master_data_res S of
                   None \<Rightarrow> Inr []
                 | Some data_values \<Rightarrow>
                     (let values = (case data_values of None \<Rightarrow> [] | Some vs \<Rightarrow> vs)
                      in Inr (unique_sources [] (collect_urls company_col_idx url_col_idx values))))))"

section \<open>The destination spreadsheet\<close>

text \<open>
  The destination spreadsheet is the state the script writes: a list of tabs, each with
  its numeric id, its title and its grid of rows. A row that is missing from the grid, or
  a cell missing from a row, is blank. Every call of the service on the destination may
  fail: \<open>faults\<close> says, call after call, which ones raise \<^verbatim>\<open>HttpError\<close> (none
  once the list is used up). \<open>log\<close> keeps, in order, the calls that change the
  destination, the saves of the ledger file and the sleeps.
\<close>

record tab =
  sheetId :: int
  title :: string
  grid :: "row list"

datatype event =
    Slept nat
  | Saved ledger
  | Added_sheet string
  | Inserted_rows int nat nat
  | Wrote_values nat "row list"

record world =
  target :: "tab list"
  ledger_file :: "char list option"
  faults :: "bool list"
  log :: "event list"

datatype 'a outcome = Returned 'a world | Raised py_error world

definition remote_call :: "world \<Rightarrow> bool \<times> world" where
  "remote_call w =
     (case faults w of
        [] \<Rightarrow> (True, w)
      | f # fs \<Rightarrow> (\<not> f, w\<lparr>faults := fs\<rparr>))"

definition record_event :: "event \<Rightarrow> world \<Rightarrow> world" where
  "record_event e w = w\<lparr>log := log w @ [e]\<rparr>"

definition sleep :: "nat \<Rightarrow> world \<Rightarrow> world" where
  "sleep seconds w = record_event (Slept seconds) w"

subsection \<open>The calls of the service on the destination\<close>

text \<open>The first cell of a row as the service returns it: a blank cell is left out.\<close>

definition cell_a :: "row \<Rightarrow> row" where
  "cell_a r = (case r of [] \<Rightarrow> [] | a # _ \<Rightarrow> if a = [] then [] else [a])"

text \<open>
  The values of column A of a grid: the service leaves the blank rows at the end out, so
  the answer is empty exactly when no row has a first cell.
\<close>

definition read_col_a :: "row list \<Rightarrow> row list" where
  "read_col_a g = rev (dropWhile (\<lambda>r. r = []) (rev (map cell_a g)))"

definition read_a1 :: "row list \<Rightarrow> row list" where
  "read_a1 g = read_col_a (take 1 g)"

text \<open>
  Writing a row of values at row \<open>i\<close>, from column A: the cells of the values replace
  those of the grid, the cells to their right stay.
\<close>

definition put_row :: "row list \<Rightarrow> nat \<Rightarrow> row \<Rightarrow> row list" where
  "put_row g i r =
     (let g' = g @ replicate (Suc i - length g) []
      in g'[i := r @ drop (length r) (g' ! i)])"

text \<open>Writing the rows of a batch from row \<open>i\<close> of the grid \<open>g\<close> downwards.\<close>

fun write_rows :: "nat \<Rightarrow> row list \<Rightarrow> row list \<Rightarrow> row list" where
  "write_rows i [] g = g"
| "write_rows i (r # rs) g = write_rows (Suc i) rs (put_row g i r)"

definition insert_blank_rows :: "nat \<Rightarrow> nat \<Rightarrow> row list \<Rightarrow> row list" where
  "insert_blank_rows startIndex endIndex g =
     take startIndex g @ replicate (endIndex - startIndex) [] @ drop startIndex g"

text \<open>A change of the grid of the tab with a given title, or with a given id.\<close>

fun on_tab_titled :: "string \<Rightarrow> (row list \<Rightarrow> row list) \<Rightarrow> tab list \<Rightarrow> tab list" where
  "on_tab_titled name f [] = []"
| "on_tab_titled name f (t # tabs) =
     (if title t = name then t\<lparr>grid := f (grid t)\<rparr> else t) # on_tab_titled name f tabs"

fun on_tab_with_id :: "int \<Rightarrow> (row list \<Rightarrow> row list) \<Rightarrow> tab list \<Rightarrow> tab list" where
  "on_tab_with_id i f [] = []"
| "on_tab_with_id i f (t # tabs) =
     (if sheetId t = i then t\<lparr>grid := f (grid t)\<rparr> else t) # on_tab_with_id i f tabs"

text \<open>
  \<^verbatim>\<open>spreadsheets().get\<close> on the destination: the tabs, or \<open>None\<close> for an
  \<^verbatim>\<open>HttpError\<close>.
\<close>

definition target_meta :: "world \<Rightarrow> (int \<times> string) list option \<times> world" where
  "target_meta w =
     (case remote_call w of
        (False, w') \<Rightarrow> (None, w')
      | (True, w') \<Rightarrow> (Some (map (\<lambda>t. (sheetId t, title t)) (target w')), w'))"

text \<open>
  \<^verbatim>\<open>values().get\<close> of a range of the destination tab; a range on a tab that does not
  exist is an \<^verbatim>\<open>HttpError\<close>.
\<close>

definition target_values_get :: "(row list \<Rightarrow> row list) \<Rightarrow> world \<Rightarrow> row list option \<times> world" where
  "target_values_get rng w =
     (case remote_call w of
        (False, w') \<Rightarrow> (None, w')
      | (True, w') \<Rightarrow>
          (case find (\<lambda>t. title t = TARGET_SHEET_NAME) (target w') of
             None \<Rightarrow> (None, w')
           | Some t \<Rightarrow> (Some (rng (grid t)), w')))"

text \<open>
  \<^verbatim>\<open>values().update\<close> of the destination tab from the cell in column A of row \<open>i\<close>
  (counted from 0); \<open>False\<close> is an \<^verbatim>\<open>HttpError\<close>.
\<close>

definition target_values_update :: "nat \<Rightarrow> row list \<Rightarrow> world \<Rightarrow> bool \<times> world" where
  "target_values_update i rows w =
     (case remote_call w of
        (False, w') \<Rightarrow> (False, w')
      | (True, w') \<Rightarrow>
          (case find (\<lambda>t. title t = TARGET_SHEET_NAME) (target w') of
             None \<Rightarrow> (False, w')
           | Some t \<Rightarrow>
               (True, record_event (Wrote_values i rows)
                        (w'\<lparr>target := on_tab_titled TARGET_SHEET_NAME (write_rows i rows) (target w')\<rparr>))))"

text \<open>
  \<^verbatim>\<open>batchUpdate\<close> with an \<^verbatim>\<open>addSheet\<close> request: the service gives the new tab an id
  no other tab has.
\<close>

definition target_add_sheet :: "world \<Rightarrow> bool \<times> world" where
  "target_add_sheet w =
     (case remote_call w of
        (False, w') \<Rightarrow> (False, w')
      | (True, w') \<Rightarrow>
          (True, record_event (Added_sheet TARGET_SHEET_NAME)
                   (w'\<lparr>target := target w' @
                      [\<lparr>sheetId = fold max (map sheetId (target w')) 0 + 1,
                        title = TARGET_SHEET_NAME, grid = []\<rparr>]\<rparr>)))"

text \<open>
  \<^verbatim>\<open>batchUpdate\<close> with an \<^verbatim>\<open>insertDimension\<close> request on the rows
  \<open>startIndex\<close> to \<open>endIndex\<close> of the tab with the given id; an id no tab has is an
  \<^verbatim>\<open>HttpError\<close>.
\<close>

definition target_insert_rows :: "int \<Rightarrow> nat \<Rightarrow> nat \<Rightarrow> world \<Rightarrow> bool \<times> world" where
  "target_insert_rows sheet_id startIndex endIndex w =
     (case remote_call w of
        (False, w') \<Rightarrow> (False, w')
      | (True, w') \<Rightarrow>
          (case find (\<lambda>t. sheetId t = sheet_id) (target w') of
             None \<Rightarrow> (False, w')
           | Some t \<Rightarrow>
               (True, record_event (Inserted_rows sheet_id startIndex endIndex)
                        (w'\<lparr>target := on_tab_with_id sheet_id
                               (insert_blank_rows startIndex endIndex) (target w')\<rparr>))))"

subsection \<open>Preparing the destination and writing a batch\<close>

text \<open>
  \<^verbatim>\<open>get_sheet_id_from_name\<close> for the destination tab: 0 when no tab has the name and
  when the call fails.
\<close>

definition get_sheet_id_from_name :: "world \<Rightarrow> int \<times> world" where
  "get_sheet_id_from_name w =
     (case target_meta w of
        (None, w') \<Rightarrow> (0, w')
      | (Some sheets, w') \<Rightarrow>
          (case find (\<lambda>sheet. snd sheet = TARGET_SHEET_NAME) sheets of
             Some sheet \<Rightarrow> (fst sheet, w')
           | None \<Rightarrow> (0, w')))"

text \<open>
  \<^verbatim>\<open>prepare_target_sheet\<close>: only the read of A1 is inside a \<^verbatim>\<open>try\<close>; a failure
  of the metadata read, of the creation of the tab or of the write of the headers leaves
  the function as an exception.
\<close>

definition prepare_target_sheet :: "row \<Rightarrow> world \<Rightarrow> unit outcome" where
  "prepare_target_sheet headers w =
     (case target_meta w of
        (None, w1) \<Rightarrow> Raised HttpError w1
      | (Some sheets, w1) \<Rightarrow>
          (case (if TARGET_SHEET_NAME \<notin> set (map snd sheets) then target_add_sheet w1 else (True, w1)) of
             (False, w2) \<Rightarrow> Raised HttpError w2
           | (True, w2) \<Rightarrow>
               (case target_values_get read_a1 w2 of
                  (None, w3) \<Rightarrow> Returned () w3
                | (Some res, w3) \<Rightarrow>
                    if res = [] then
                      (case target_values_update 0 [headers] w3 of
                         (False, w4) \<Rightarrow> Raised HttpError w4
                       | (True, w4) \<Rightarrow> Returned () w4)
                    else Returned () w3)))"

text \<open>
  \<^verbatim>\<open>append_rows\<close>: the whole body is inside \<^verbatim>\<open>try ... except Exception\<close>, which
  prints and returns, so the function returns normally whatever happens and its caller
  cannot tell a failed write from a successful one.
\<close>

definition append_rows :: "row list \<Rightarrow> world \<Rightarrow> world" where
  "append_rows rows w =
     (if rows = [] then w
      else
        (case target_values_get read_col_a w of
           (None, w1) \<Rightarrow> w1
         | (Some current_values, w1) \<Rightarrow>
             if current_values = [] then snd (target_values_update 1 rows w1)
             else
               (case get_sheet_id_from_name w1 of
                  (sheet_id, w2) \<Rightarrow>
                    (case target_insert_rows sheet_id 1 (1 + length rows) w2 of
                       (False, w3) \<Rightarrow> w3
                     | (True, w3) \<Rightarrow> snd (target_values_update 1 rows w3)))))"

section \<open>The consolidation cycle\<close>

text \<open>
  The variables of one run of the body of \<^verbatim>\<open>while True\<close> in \<^verbatim>\<open>main\<close>.
\<close>

record run_state =
  processed_hashes :: ledger
  all_new_rows_for_upload :: "row list"
  master_header_with_company :: "row option"
  newly_processed_this_run :: ledger
  headers_prepared_this_run :: bool

text \<open>
  \<^verbatim>\<open>if key not in d: d[key] = []\<close>, and the read \<^verbatim>\<open>d[key]\<close> that the script
  only makes after it.
\<close>

definition setdefault :: "string \<Rightarrow> ledger \<Rightarrow> ledger" where
  "setdefault key d = (if map_of d key = None then AList.update key [] d else d)"

definition lookup :: "ledger \<Rightarrow> string \<Rightarrow> string list" where
  "lookup d key = (case map_of d key of None \<Rightarrow> [] | Some v \<Rightarrow> v)"

text \<open>
  The loop over \<^verbatim>\<open>newly_processed_this_run.items()\<close> (lines 449 to 453) that extends
  the ledger with the pending fingerprints.
\<close>

fun merge_pending :: "ledger \<Rightarrow> ledger \<Rightarrow> ledger" where
  "merge_pending [] hashes = hashes"
| "merge_pending ((source_key, new_hashes) # items) hashes =
     merge_pending items
       (if new_hashes \<noteq> [] then
          (let hashes' = setdefault source_key hashes
           in AList.update source_key (lookup hashes' source_key @ new_hashes) hashes')
        else hashes)"

text \<open>
  The batch write (lines 436 to 459). \<^verbatim>\<open>prepare_target_sheet\<close> may raise;
  \<^verbatim>\<open>append_rows\<close> returns in every case, and the ledger is extended and saved after
  it.
\<close>

definition flush :: "stdlib \<Rightarrow> run_state \<Rightarrow> world \<Rightarrow> run_state outcome" where
  "flush L st w =
     (case (if \<not> headers_prepared_this_run st
               \<and> master_header_with_company st \<noteq> None \<and> master_header_with_company st \<noteq> Some []
            then (case prepare_target_sheet (the (master_header_with_company st)) w of
                    Raised e w' \<Rightarrow> Raised e w'
                  | Returned u w' \<Rightarrow> Returned (st\<lparr>headers_prepared_this_run := True\<rparr>) w')
            else Returned st w) of
        Raised e w1 \<Rightarrow> Raised e w1
      | Returned st1 w1 \<Rightarrow>
          (let w2 = append_rows (all_new_rows_for_upload st1) w1;
               hashes = merge_pending (newly_processed_this_run st1) (processed_hashes st1);
               w3 = record_event (Saved hashes) (w2\<lparr>ledger_file := save_processed_hashes L hashes\<rparr>)
           in Returned (st1\<lparr>processed_hashes := hashes,
                            all_new_rows_for_upload := [],
                            newly_processed_this_run := []\<rparr>) w3))"

text \<open>
  Lines 424 to 429: the destination header is captured from the first source that has
  new rows, and the new rows of the source being read are padded and pushed into the
  batch.
\<close>

definition push_new_rows :: "row \<Rightarrow> string \<Rightarrow> row list \<Rightarrow> run_state \<Rightarrow> run_state" where
  "push_new_rows header company_name newly_found_rows st =
     st\<lparr>master_header_with_company :=
          (if master_header_with_company st = None \<or> master_header_with_company st = Some []
           then Some (header @ [''Company Name''])
           else master_header_with_company st),
        all_new_rows_for_upload :=
          pad_rows header company_name newly_found_rows (all_new_rows_for_upload st)\<rparr>"

text \<open>
  The body of the loop over the sources from the point where the rows of the source are
  read (lines 398 to 459): \<open>n\<close> is \<^verbatim>\<open>len(source_infos)\<close>. A source without new
  rows leaves by \<^verbatim>\<open>continue\<close> before the batch write is reached.
\<close>

definition scan_source :: "stdlib \<Rightarrow> nat \<Rightarrow> nat \<Rightarrow> string \<Rightarrow> string \<Rightarrow> row \<Rightarrow> row list
    \<Rightarrow> run_state \<Rightarrow> world \<Rightarrow> run_state outcome" where
  "scan_source L n ss_index company_name source_key header data_rows st w =
     (let hashes = setdefault source_key (processed_hashes st);
          existing_hashes_for_source = set (lookup hashes source_key);
          pending = setdefault source_key (newly_processed_this_run st);
          (newly_found_rows, new_hashes) =
             classify_rows L existing_hashes_for_source data_rows [] (lookup pending source_key);
          st1 = st\<lparr>processed_hashes := hashes,
                   newly_processed_this_run := AList.update source_key new_hashes pending\<rparr>
      in if newly_found_rows = [] then Returned st1 (sleep 3 w)
         else
           (let st2 = push_new_rows header company_name newly_found_rows st1;
                w1 = sleep 3 w
            in if all_new_rows_for_upload st2 \<noteq> [] \<and> (ss_index mod 25 = 0 \<or> ss_index = n)
               then flush L st2 w1
               else Returned st2 w1))"

text \<open>
  The start of the body of the loop (lines 378 to 396): a source whose address cannot
  be resolved or that has no data row is skipped; an exception from the conversion of
  the gid leaves the loop.
\<close>

definition process_source :: "stdlib \<Rightarrow> service \<Rightarrow> nat \<Rightarrow> nat \<Rightarrow> string \<times> string
    \<Rightarrow> run_state \<Rightarrow> world \<Rightarrow> run_state outcome" where
  "process_source L S n ss_index source_info st w =
     (let url = fst source_info;
          company_name = snd source_info
      in case extract_spreadsheet_info_from_url L url of
           Inl e \<Rightarrow> Raised e w
         | Inr (None, gid) \<Rightarrow> Returned st w
         | Inr (Some spreadsheet_id, gid) \<Rightarrow>
             (case get_sheet_name_from_gid S spreadsheet_id gid of
                Inl e \<Rightarrow> Raised e w
              | Inr None \<Rightarrow> Returned st w
              | Inr (Some sheet_name) \<Rightarrow>
                  if sheet_name = [] then Returned st w
                  else
                    (let rows = fetch_entire_sheet S spreadsheet_id sheet_name
                     in if length rows \<le> 1 then Returned st w
                        else scan_source L n ss_index company_name
                               (spreadsheet_id @ ''_'' @ str_int gid) (hd rows) (tl rows) st w)))"

text \<open>The loop \<^verbatim>\<open>for ss_index, source_info in enumerate(source_infos, start=1)\<close>.\<close>

fun main_loop :: "stdlib \<Rightarrow> service \<Rightarrow> nat \<Rightarrow> nat \<Rightarrow> (string \<times> string) list
    \<Rightarrow> run_state \<Rightarrow> world \<Rightarrow> run_state outcome" where
  "main_loop L S n ss_index [] st w = Returned st w"
| "main_loop L S n ss_index (source_info # rest) st w =
     (case process_source L S n ss_index source_info st w of
        Raised e w' \<Rightarrow> Raised e w'
      | Returned st' w' \<Rightarrow> main_loop L S n (Suc ss_index) rest st' w')"

text \<open>
  One run of the body of \<^verbatim>\<open>while True\<close>: the ledger is loaded, the catalog read, the
  sources processed, and the script sleeps. Nothing in \<^verbatim>\<open>main\<close> catches an exception,
  so a raised one ends the process.
\<close>

definition main_cycle :: "stdlib \<Rightarrow> service \<Rightarrow> world \<Rightarrow> unit outcome" where
  "main_cycle L S w =
     (case load_processed_hashes L (ledger_file w) of
        Inl e \<Rightarrow> Raised e w
      | Inr hashes \<Rightarrow>
          (case get_source_sheet_urls S of
             Inl e \<Rightarrow> Raised e w
           | Inr source_infos \<Rightarrow>
               if source_infos = [] then Returned () (sleep (4 * 60 * 60) w)
               else
                 (case main_loop L S (length source_infos) 1 source_infos
                         \<lparr>processed_hashes = hashes,
                          all_new_rows_for_upload = [],
                          master_header_with_company = None,
                          newly_processed_this_run = [],
                          headers_prepared_this_run = False\<rparr> w of
                    Raised e w' \<Rightarrow> Raised e w'
                  | Returned st w' \<Rightarrow> Returned () (sleep (4 * 60 * 60) w'))))"

section \<open>Observations and concrete inputs\<close>

text \<open>The world an outcome leaves, and the seconds of a sleep in the log.\<close>

fun world_of :: "'a outcome \<Rightarrow> world" where
  "world_of (Returned x w) = w"
| "world_of (Raised e w) = w"

fun seconds_slept :: "event \<Rightarrow> nat" where
  "seconds_slept (Slept n) = n"
| "seconds_slept e = 0"

text \<open>
  The decimal digits of Unicode 14.0, the version of Python 3.11: they come in runs of
  ten consecutive code points, from the digit zero of a script to its digit nine, and
  \<open>decimal_zeros\<close> lists the zeros.
\<close>

definition decimal_zeros :: "int list" where
  "decimal_zeros =
     [0x30, 0x660, 0x6F0, 0x7C0, 0x966, 0x9E6, 0xA66, 0xAE6, 0xB66, 0xBE6, 0xC66, 0xCE6,
      0xD66, 0xDE6, 0xE50, 0xED0, 0xF20, 0x1040, 0x1090, 0x17E0, 0x1810, 0x1946, 0x19D0,
      0x1A80, 0x1A90, 0x1B50, 0x1BB0, 0x1C40, 0x1C50, 0xA620, 0xA8D0, 0xA900, 0xA9D0,
      0xA9F0, 0xAA50, 0xABF0, 0xFF10, 0x104A0, 0x10D30, 0x11066, 0x110F0, 0x11136,
      0x111D0, 0x112F0, 0x11450, 0x114D0, 0x11650, 0x116C0, 0x11730, 0x118E0, 0x11950,
      0x11C50, 0x11D50, 0x11DA0, 0x16A60, 0x16AC0, 0x16B50, 0x1D7CE, 0x1D7D8, 0x1D7E2,
      0x1D7EC, 0x1D7F6, 0x1E140, 0x1E2F0, 0x1E950, 0x1FBF0]"

fun decimal_among :: "int list \<Rightarrow> int \<Rightarrow> int option" where
  "decimal_among [] n = None"
| "decimal_among (z # zeros) n = (if z \<le> n \<and> n < z + 10 then Some (n - z) else decimal_among zeros n)"

definition unicode_14_decimal :: "int \<Rightarrow> int option" where
  "unicode_14_decimal n = decimal_among decimal_zeros n"

text \<open>
  The inputs of the concrete examples. \<open>example_lib\<close> stands for the library: the
  examples hold for every digest function and take the identity; they start without a
  ledger file and never read one back, so the parser and the printer are not exercised;
  the decimal digits are those of Unicode 14.0 and the limit on the digits of an integer
  is the default, 4300.
  \<open>example_service srcs\<close> is a master sheet with the two required columns and one
  row per source (spreadsheet id, company, rows of the source), every source having the
  single tab \<open>Data\<close> with gid 0. \<open>example_world tabs fs\<close> is a destination with the
  given tabs, no ledger file and the given faults.
\<close>

definition example_lib :: stdlib where
  "example_lib =
     \<lparr>sha256_hexdigest = (\<lambda>s. s), json_loads = (\<lambda>s. None), json_dumps = (\<lambda>d. []),
      unicodedata_decimal = unicode_14_decimal, int_max_str_digits = 4300\<rparr>"

definition example_service :: "(string \<times> string \<times> row list) list \<Rightarrow> service" where
  "example_service srcs =
     \<lparr>master_header_res = Some (Some [[''Company'', ''Appointment Spreadsheet:'']]),
      master_data_res = Some (Some (map (\<lambda>(i, c, rs). [c, ''https://x/spreadsheets/d/'' @ i]) srcs)),
      source_meta = (\<lambda>i. Some [(0, ''Data'')]),
      source_values = (\<lambda>i n. map_of (map (\<lambda>(i, c, rs). (i, rs)) srcs) i)\<rparr>"

definition example_world :: "tab list \<Rightarrow> bool list \<Rightarrow> world" where
  "example_world tabs fs = \<lparr>target = tabs, ledger_file = None, faults = fs, log = []\<rparr>"

text \<open>
  \<open>numbered_sources n\<close> are \<open>n\<close> sources, the \<open>i\<close>-th with the spreadsheet id
  \<open>i\<close> in decimal, a one-column header and one data row that holds \<open>i\<close>.
  \<open>brief\<close> drops what was written or saved from an event of the log and keeps which
  call it was.
\<close>

definition numbered_sources :: "nat \<Rightarrow> (string \<times> string \<times> row list) list" where
  "numbered_sources n = map (\<lambda>i. (str_nat i, ''Acme'', [[''h''], [str_nat i]])) [1..<Suc n]"

fun brief :: "event \<Rightarrow> event" where
  "brief (Saved d) = Saved []"
| "brief (Wrote_values i rows) = Wrote_values i []"
| "brief e = e"

section \<open>Properties\<close>

subsection \<open>Fingerprints\<close>

text \<open>
  C10. The fingerprint is a digest of the plain concatenation of the cells, so the two
  distinct rows \<open>[''ab'', '''']\<close> and \<open>[''a'', ''b'']\<close> have the same fingerprint whatever
  the digest function is, and once the fingerprint of the first is among the existing
  fingerprints of the source the second is not classified as new: the scan of a fetch
  that consists of it leaves the found rows and the pending fingerprints as they were.
\<close>

theorem concat_collision_same_fingerprint:
  "[''ab'', ''''] \<noteq> [''a'', ''b''] \<and>
   get_row_hash L [''ab'', ''''] = get_row_hash L [''a'', ''b''] \<and>
   classify_rows L (insert (get_row_hash L [''ab'', '''']) existing) [[''a'', ''b'']] found pending
     = (found, pending)"
  by (simp add: get_row_hash_def)

subsection \<open>Loading the ledger\<close>

lemma load_missing_file: "load_processed_hashes L None = Inr []"
  by (simp add: load_processed_hashes_def)

lemma load_malformed_text:
  "utf8_valid bytes \<Longrightarrow> json_loads L bytes = None \<Longrightarrow> load_processed_hashes L (Some bytes) = Inr []"
  by (simp add: load_processed_hashes_def)

text \<open>
  C8. A missing file and a file whose text the JSON parser rejects give the empty
  ledger (the two lemmas above), but not every content does: on a file that holds the
  single byte \<open>0xFF\<close>, which no UTF-8 text contains, the read raises
  \<^verbatim>\<open>UnicodeDecodeError\<close>; \<^verbatim>\<open>except json.JSONDecodeError\<close> does not catch it and
  the cycle, and with it the process, ends with that exception.
\<close>

theorem load_undecodable_file_raises:
  "load_processed_hashes L (Some [CHR 0xFF]) = Inl UnicodeDecodeError \<and>
   main_cycle L S (w\<lparr>ledger_file := Some [CHR 0xFF]\<rparr>)
     = Raised UnicodeDecodeError (w\<lparr>ledger_file := Some [CHR 0xFF]\<rparr>)"
  by (simp add: load_processed_hashes_def main_cycle_def in_range_def)

subsection \<open>Addresses\<close>

text \<open>
  The gid of an address may be written with any decimal digits of Unicode: here the
  Arabic-Indic digit three (U+0663, the bytes D9 A3) followed by the digit one. A gid
  with more digits than the limit of \<^verbatim>\<open>int\<close> raises.
\<close>

lemma gid_of_unicode_digits:
  "extract_spreadsheet_info_from_url example_lib
     (''https://x/spreadsheets/d/a/edit#gid='' @ [CHR 0xD9, CHR 0xA3] @ ''1'') = Inr (Some ''a'', 31)"
  by code_simp

lemma int_beyond_the_digit_limit:
  "0 < int_max_str_digits L \<Longrightarrow> int_max_str_digits L < length digits \<Longrightarrow> py_int L digits = Inl ValueError"
  by (simp add: py_int_def)

subsection \<open>The source catalog\<close>

lemma find_columns_fst:
  "COMPANY_COLUMN_NAME \<notin> set (map strip headers) \<Longrightarrow> fst (find_columns headers i c u) = c"
  by (induction headers arbitrary: i c u) auto

lemma find_columns_snd:
  "URL_COLUMN_NAME \<notin> set (map strip headers) \<Longrightarrow> snd (find_columns headers i c u) = u"
  by (induction headers arbitrary: i c u) auto

lemma catalog_empty_of_missing_column:
  assumes "master_header_res S = Some None \<and> headers = [] \<or>
           (\<exists>others. master_header_res S = Some (Some (headers # others)))"
    and "COMPANY_COLUMN_NAME \<notin> set (map strip headers) \<or> URL_COLUMN_NAME \<notin> set (map strip headers)"
  shows "get_source_sheet_urls S = Inr []"
proof -
  obtain c u where cu: "find_columns headers 0 (- 1) (- 1) = (c, u)"
    by (cases "find_columns headers 0 (- 1) (- 1)") auto
  from assms(2) have "c = - 1 \<or> u = - 1"
    using find_columns_fst [of headers 0 "- 1" "- 1"] find_columns_snd [of headers 0 "- 1" "- 1"] cu
    by auto
  with assms(1) cu show ?thesis
    by (auto simp: get_source_sheet_urls_def)
qed

text \<open>
  Stripping removes the whitespace of Unicode as well: a header that is the Company
  column name followed by a no-break space (U+00A0, the bytes C2 A0) or preceded by an
  ideographic space (U+3000) is that column, and the catalog is read.
\<close>

lemma strip_removes_unicode_whitespace:
  "strip (''Company'' @ [CHR 0xC2, CHR 0xA0]) = ''Company'' \<and>
   strip ([CHR 0xE3, CHR 0x80, CHR 0x80] @ ''Company'' @ [CHR 0xC2, CHR 0x85, CHR 0x09]) = ''Company'' \<and>
   strip (''Compa'' @ [CHR 0xC3, CHR 0xA9] @ '' '') = ''Compa'' @ [CHR 0xC3, CHR 0xA9]"
  by code_simp

lemma company_column_found_after_no_break_space:
  "get_source_sheet_urls
     ((example_service [(''a'', ''Acme'', [[''h''], [''x'']])])
        \<lparr>master_header_res :=
           Some (Some [[''Company'' @ [CHR 0xC2, CHR 0xA0], ''Appointment Spreadsheet:'']])\<rparr>)
     = Inr [(''https://x/spreadsheets/d/a'', ''Acme'')]"
  by code_simp

text \<open>
  C7. \<open>headers\<close> is the header row of the master sheet as the service returns it (no
  cell at all when the row is empty). If no header is, once stripped, the Company column
  name, or none is the source URL column name, the source list is empty and the cycle
  does nothing but sleep: the world it leaves is the one it found, with the sleep added
  to the log, so the destination, the ledger file and the record of calls on the
  destination are unchanged. (The only other outcome is that loading the ledger raised,
  before the catalog was read; the world is then untouched.)
\<close>

theorem missing_column_fails_closed:
  assumes "master_header_res S = Some None \<and> headers = [] \<or>
           (\<exists>others. master_header_res S = Some (Some (headers # others)))"
    and "COMPANY_COLUMN_NAME \<notin> set (map strip headers) \<or> URL_COLUMN_NAME \<notin> set (map strip headers)"
  shows "get_source_sheet_urls S = Inr [] \<and>
         (main_cycle L S w = Returned () (w\<lparr>log := log w @ [Slept (4 * 60 * 60)]\<rparr>) \<or>
          main_cycle L S w = Raised UnicodeDecodeError w)"
proof -
  have e: "get_source_sheet_urls S = Inr []"
    using assms by (rule catalog_empty_of_missing_column)
  show ?thesis
  proof (cases "load_processed_hashes L (ledger_file w)")
    case (Inl err)
    then have "err = UnicodeDecodeError"
      by (auto simp: load_processed_hashes_def split: option.splits if_splits)
    with Inl e show ?thesis by (simp add: main_cycle_def)
  next
    case (Inr hashes)
    with e show ?thesis by (simp add: main_cycle_def sleep_def record_event_def)
  qed
qed

theorem missing_column_fails_closed_witness:
  "(\<exists>others. master_header_res
       ((example_service [(''a'', ''Acme'', [[''h''], [''x'']])])
          \<lparr>master_header_res := Some (Some [[''Client'', '' Appointment Spreadsheet: '']])\<rparr>)
       = Some (Some ([''Client'', '' Appointment Spreadsheet: ''] # others))) \<and>
   COMPANY_COLUMN_NAME \<notin> set (map strip [''Client'', '' Appointment Spreadsheet: '']) \<and>
   get_source_sheet_urls
       ((example_service [(''a'', ''Acme'', [[''h''], [''x'']])])
          \<lparr>master_header_res := Some (Some [[''Client'', '' Appointment Spreadsheet: '']])\<rparr>) = Inr [] \<and>
   main_cycle example_lib
       ((example_service [(''a'', ''Acme'', [[''h''], [''x'']])])
          \<lparr>master_header_res := Some (Some [[''Client'', '' Appointment Spreadsheet: '']])\<rparr>)
       (example_world [] [])
     = Returned () ((example_world [] [])\<lparr>log := [Slept (4 * 60 * 60)]\<rparr>)"
proof -
  have h1: "\<exists>others. master_header_res
       ((example_service [(''a'', ''Acme'', [[''h''], [''x'']])])
          \<lparr>master_header_res := Some (Some [[''Client'', '' Appointment Spreadsheet: '']])\<rparr>)
       = Some (Some ([''Client'', '' Appointment Spreadsheet: ''] # others))"
    by (simp add: example_service_def)
  have h2: "COMPANY_COLUMN_NAME \<notin> set (map strip [''Client'', '' Appointment Spreadsheet: ''])"
    by code_simp
  have l: "load_processed_hashes example_lib (ledger_file (example_world [] [])) = Inr []"
    by (simp add: example_world_def load_processed_hashes_def)
  note t = missing_column_fails_closed [OF disjI2 [OF h1] disjI1 [OF h2], of example_lib "example_world [] []"]
  have nr: "main_cycle example_lib
       ((example_service [(''a'', ''Acme'', [[''h''], [''x'']])])
          \<lparr>master_header_res := Some (Some [[''Client'', '' Appointment Spreadsheet: '']])\<rparr>)
       (example_world [] []) \<noteq> Raised UnicodeDecodeError (example_world [] [])"
    using l t by (simp add: main_cycle_def)
  show ?thesis
    using t h1 h2 nr by (simp add: example_world_def)
qed

subsection \<open>The sleep between cycles\<close>

text \<open>
  C9 (as amended). A cycle that returns ends with a sleep of \<open>4 * 60 * 60\<close> seconds
  whether its source list was empty or not: the interval after a cycle in which no
  sources were found is the same as the idle interval after a full pass, not a shorter
  one. The last event of the log is that sleep in both cases.
\<close>

theorem retry_interval_equals_idle_interval:
  assumes "main_cycle L S1 w1 = Returned u1 w1'" and "get_source_sheet_urls S1 = Inr []"
    and "main_cycle L S2 w2 = Returned u2 w2'" and "get_source_sheet_urls S2 \<noteq> Inr []"
  shows "last (log w1') = Slept (4 * 60 * 60) \<and> last (log w2') = Slept (4 * 60 * 60)"
proof
  from assms(1,2) show "last (log w1') = Slept (4 * 60 * 60)"
    by (auto simp: main_cycle_def sleep_def record_event_def split: sum.splits)
  from assms(3,4) show "last (log w2') = Slept (4 * 60 * 60)"
    by (auto simp: main_cycle_def sleep_def record_event_def split: sum.splits outcome.splits if_splits)
qed

theorem retry_interval_equals_idle_interval_witness:
  "get_source_sheet_urls ((example_service [])\<lparr>master_header_res := Some (Some [[''Client'']])\<rparr>) = Inr [] \<and>
   get_source_sheet_urls (example_service [(''a'', ''Acme'', [[''h''], [''x'']])]) \<noteq> Inr [] \<and>
   last (log (world_of (main_cycle example_lib
          ((example_service [])\<lparr>master_header_res := Some (Some [[''Client'']])\<rparr>)
          (example_world [] [])))) = Slept (4 * 60 * 60) \<and>
   last (log (world_of (main_cycle example_lib
          (example_service [(''a'', ''Acme'', [[''h''], [''x'']])])
          (example_world [\<lparr>sheetId = 0, title = ''Sheet1'', grid = []\<rparr>] [])))) = Slept (4 * 60 * 60)"
proof -
  have c1: "get_source_sheet_urls ((example_service [])\<lparr>master_header_res := Some (Some [[''Client'']])\<rparr>) = Inr []"
    by code_simp
  have c2: "get_source_sheet_urls (example_service [(''a'', ''Acme'', [[''h''], [''x'']])]) \<noteq> Inr []"
    by code_simp
  have r1: "main_cycle example_lib
          ((example_service [])\<lparr>master_header_res := Some (Some [[''Client'']])\<rparr>)
          (example_world [] [])
       = Returned () (world_of (main_cycle example_lib
          ((example_service [])\<lparr>master_header_res := Some (Some [[''Client'']])\<rparr>)
          (example_world [] [])))"
    by code_simp
  have r2: "main_cycle example_lib
          (example_service [(''a'', ''Acme'', [[''h''], [''x'']])])
          (example_world [\<lparr>sheetId = 0, title = ''Sheet1'', grid = []\<rparr>] [])
       = Returned () (world_of (main_cycle example_lib
          (example_service [(''a'', ''Acme'', [[''h''], [''x'']])])
          (example_world [\<lparr>sheetId = 0, title = ''Sheet1'', grid = []\<rparr>] [])))"
    by code_simp
  show ?thesis
    using retry_interval_equals_idle_interval [OF r1 c1 r2 c2] c1 c2 by simp
qed


text \<open>
  The claim as stated fails: the sleep after a cycle whose catalog lacks the Company
  column is not shorter than the sleep after a cycle that processed a source.
\<close>

theorem retry_interval_not_shorter:
  "\<not> seconds_slept (last (log (world_of (main_cycle example_lib
          ((example_service [])\<lparr>master_header_res := Some (Some [[''Client'']])\<rparr>)
          (example_world [] [])))))
     < seconds_slept (last (log (world_of (main_cycle example_lib
          (example_service [(''a'', ''Acme'', [[''h''], [''x'']])])
          (example_world [\<lparr>sheetId = 0, title = ''Sheet1'', grid = []\<rparr>] [])))))"
  by code_simp

subsection \<open>Classification of the rows of a fetch\<close>

lemma classify_rows_filter:
  "classify_rows L existing data_rows found pending =
     (found @ filter (\<lambda>row. get_row_hash L row \<notin> existing) data_rows,
      pending @ map (get_row_hash L) (filter (\<lambda>row. get_row_hash L row \<notin> existing) data_rows))"
  by (induction data_rows arbitrary: found pending) (simp_all add: Let_def)

text \<open>
  C2 (as amended). The scan of a fetch compares every row with the fingerprints the
  ledger held for the source before the scan, and with nothing else: the rows found new
  are all the occurrences of rows whose fingerprint is not among them, in order, and the
  pending list of the source, kept apart from the ledger, grows by one fingerprint per
  such occurrence. A row that occurs twice in the fetch is flagged twice.
\<close>

theorem classify_rows_flags_every_occurrence:
  "classify_rows L existing data_rows found pending =
     (found @ filter (\<lambda>row. get_row_hash L row \<notin> existing) data_rows,
      pending @ map (get_row_hash L) (filter (\<lambda>row. get_row_hash L row \<notin> existing) data_rows))"
  by (rule classify_rows_filter)

text \<open>
  The claim as stated fails: a fetch that holds the same row twice, scanned against an
  empty set of existing fingerprints, gives two found rows and two equal pending
  fingerprints.
\<close>

theorem repeated_rows_flagged_twice:
  "classify_rows example_lib {} [[''x''], [''x'']] [] [] = ([[''x''], [''x'']], [''x'', ''x'']) \<and>
   \<not> distinct (snd (classify_rows example_lib {} [[''x''], [''x'']] [] []))"
  by (simp add: get_row_hash_def example_lib_def)

subsection \<open>Padding of the new rows\<close>

lemma pad_rows_map:
  "pad_rows header company_name rows batch =
     batch @ map (\<lambda>row. (row @ replicate (length header - length row) '''') @ [company_name]) rows"
  by (induction rows arbitrary: batch) (simp_all add: Let_def)

lemma padded_length:
  "length (row @ replicate (length header - length row) '''') = max (length header) (length row)"
  by simp

text \<open>
  C4 (as amended). \<open>header\<close> is the header row of the source being read. Whatever
  destination header the run has captured (it is part of \<open>st\<close>), every new row pushed
  into the batch is the row followed by empty cells up to the length of the source's own
  header (none when the row is at least that long, so that such a row is unchanged)
  followed by the display name of the source.
\<close>

theorem pushed_rows_padded_to_own_header:
  "all_new_rows_for_upload (push_new_rows header company_name newly_found_rows st) =
     all_new_rows_for_upload st @
     map (\<lambda>row. (row @ replicate (length header - length row) '''') @ [company_name]) newly_found_rows"
  by (simp add: push_new_rows_def pad_rows_map)

text \<open>
  The claim as stated fails: with a first source of three columns, which gives the
  destination header of four columns, and a second source of one column, the row of the
  second source reaches the destination with its single cell and the display name, not
  padded to the column count of the captured header (neither with nor without its
  company column).
\<close>

theorem row_not_padded_to_destination_header:
  "target (world_of (main_cycle example_lib
      (example_service [(''a'', ''Acme'', [[''A'', ''B'', ''C''], [''p'', ''q'', ''r'']]),
                        (''b'', ''Bolt'', [[''A''], [''x'']])])
      (example_world [\<lparr>sheetId = 0, title = ''Sheet1'', grid = []\<rparr>] [])))
    = [\<lparr>sheetId = 0, title = ''Sheet1'',
        grid = [[''A'', ''B'', ''C'', ''Company Name''], [''p'', ''q'', ''r'', ''Acme''], [''x'', ''Bolt'']]\<rparr>] \<and>
   [''x'', ''Bolt''] \<noteq>
     ([''x''] @ replicate (length [''A'', ''B'', ''C'', ''Company Name''] - length [''x'']) '''') @ [''Bolt''] \<and>
   [''x'', ''Bolt''] \<noteq>
     ([''x''] @ replicate (length [''A'', ''B'', ''C''] - length [''x'']) '''') @ [''Bolt'']"
  by code_simp

subsection \<open>Writing a batch at the top of the destination\<close>




lemma read_col_a_nonempty: "cell_a hdr \<noteq> [] \<Longrightarrow> read_col_a (hdr # data) \<noteq> []"
  by (simp add: read_col_a_def dropWhile_append)














subsection \<open>Batch writes and the ledger\<close>

text \<open>
  The rule of the batch write as the loop body has it: a source without new rows
  leaves the body before the write is considered; a source with new rows is followed by
  a write when its index is a multiple of 25 or the last one.
\<close>

lemma scan_source_flush_rule:
  "scan_source L n ss_index company_name source_key header data_rows st w =
     (let hashes = setdefault source_key (processed_hashes st);
          pending = setdefault source_key (newly_processed_this_run st);
          newly_found_rows = filter (\<lambda>row. get_row_hash L row \<notin> set (lookup hashes source_key)) data_rows;
          st1 = st\<lparr>processed_hashes := hashes,
                   newly_processed_this_run :=
                     AList.update source_key (lookup pending source_key @ map (get_row_hash L) newly_found_rows) pending\<rparr>;
          st2 = push_new_rows header company_name newly_found_rows st1
      in if newly_found_rows = [] then Returned st1 (sleep 3 w)
         else if ss_index mod 25 = 0 \<or> ss_index = n then flush L st2 (sleep 3 w)
         else Returned st2 (sleep 3 w))"
  by (simp add: scan_source_def classify_rows_filter Let_def push_new_rows_def pad_rows_map)

lemma flush_points_of_sixty:
  "filter (\<lambda>ss_index. ss_index mod 25 = 0 \<or> ss_index = 60) [1..<61] = [25, 50, 60]"
  by code_simp

text \<open>
  The example of 60 sources with one new row each: 25 sources are read (each followed by
  its pause), the header and the first batch are written and the ledger is saved; 25
  more sources, a write and a save; the last 10 sources, a write and a save; then the
  sleep until the next cycle.
\<close>

lemma sixty_sources_flush_after_25_50_60:
  "map brief (log (world_of (main_cycle example_lib (example_service (numbered_sources 60))
      (example_world [\<lparr>sheetId = 0, title = ''Sheet1'', grid = []\<rparr>] []))))
    = replicate 25 (Slept 3) @ [Wrote_values 0 [], Inserted_rows 0 1 26, Wrote_values 1 [], Saved []]
      @ replicate 25 (Slept 3) @ [Inserted_rows 0 1 26, Wrote_values 1 [], Saved []]
      @ replicate 10 (Slept 3) @ [Inserted_rows 0 1 11, Wrote_values 1 [], Saved []]
      @ [Slept (4 * 60 * 60)]"
  by code_simp

text \<open>
  C3. When every source has new rows the writes come after the sources whose index is
  a multiple of 25 and after the last one (for 60 sources: 25, 50 and 60, as the lemma
  above shows). But the write is not made whenever the batch is not empty and the list
  is exhausted: with a first source that has one new row and a second, last source that
  has no data row, the loop ends with the row still in the batch, nothing is written to
  the destination, no ledger is saved, and the cycle goes to sleep.
\<close>

theorem pending_batch_not_flushed_at_end:
  "main_loop L (example_service [(''a'', ''Acme'', [[''h''], [''x'']]), (''b'', ''Bolt'', [[''h'']])]) 2 1
      [(''https://x/spreadsheets/d/a'', ''Acme''), (''https://x/spreadsheets/d/b'', ''Bolt'')]
      \<lparr>processed_hashes = [], all_new_rows_for_upload = [], master_header_with_company = None,
       newly_processed_this_run = [], headers_prepared_this_run = False\<rparr>
      (example_world [\<lparr>sheetId = 0, title = ''Sheet1'', grid = []\<rparr>] [])
    = Returned
       \<lparr>processed_hashes = [(''a_0'', [])], all_new_rows_for_upload = [[''x'', ''Acme'']],
        master_header_with_company = Some [''h'', ''Company Name''],
        newly_processed_this_run = [(''a_0'', [sha256_hexdigest L ''x''])],
        headers_prepared_this_run = False\<rparr>
       \<lparr>target = [\<lparr>sheetId = 0, title = ''Sheet1'', grid = []\<rparr>], ledger_file = None, faults = [],
        log = [Slept 3]\<rparr> \<and>
   main_cycle L (example_service [(''a'', ''Acme'', [[''h''], [''x'']]), (''b'', ''Bolt'', [[''h'']])])
      (example_world [\<lparr>sheetId = 0, title = ''Sheet1'', grid = []\<rparr>] [])
    = Returned ()
       \<lparr>target = [\<lparr>sheetId = 0, title = ''Sheet1'', grid = []\<rparr>], ledger_file = None, faults = [],
        log = [Slept 3, Slept (4 * 60 * 60)]\<rparr>"
  by code_simp

text \<open>
  An exception leaves the batch write only from \<^verbatim>\<open>prepare_target_sheet\<close>, and then
  the ledger file is as it was.
\<close>

lemma remote_call_ledger_file: "ledger_file (snd (remote_call w)) = ledger_file w"
  by (simp add: remote_call_def split: list.splits)

lemma target_meta_ledger_file: "ledger_file (snd (target_meta w)) = ledger_file w"
  using remote_call_ledger_file [of w]
  by (auto simp: target_meta_def split: prod.splits bool.splits)

lemma target_add_sheet_ledger_file: "ledger_file (snd (target_add_sheet w)) = ledger_file w"
  using remote_call_ledger_file [of w]
  by (auto simp: target_add_sheet_def record_event_def split: prod.splits bool.splits)

lemma target_values_get_ledger_file: "ledger_file (snd (target_values_get rng w)) = ledger_file w"
  using remote_call_ledger_file [of w]
  by (auto simp: target_values_get_def split: prod.splits bool.splits option.splits)

lemma target_values_update_ledger_file: "ledger_file (snd (target_values_update i rows w)) = ledger_file w"
  using remote_call_ledger_file [of w]
  by (auto simp: target_values_update_def record_event_def split: prod.splits bool.splits option.splits)

lemma prepare_target_sheet_ledger_file:
  "ledger_file (world_of (prepare_target_sheet headers w)) = ledger_file w"
proof -
  obtain m w1 where m: "target_meta w = (m, w1)" by (cases "target_meta w")
  have l1: "ledger_file w1 = ledger_file w"
    using target_meta_ledger_file [of w] m by simp
  show ?thesis
  proof (cases m)
    case None
    with m l1 show ?thesis by (simp add: prepare_target_sheet_def)
  next
    case (Some sheets)
    obtain ok w2 where a: "(if TARGET_SHEET_NAME \<notin> set (map snd sheets) then target_add_sheet w1 else (True, w1)) = (ok, w2)"
      by (cases "if TARGET_SHEET_NAME \<notin> set (map snd sheets) then target_add_sheet w1 else (True, w1)")
    have l2: "ledger_file w2 = ledger_file w"
      using a l1 target_add_sheet_ledger_file [of w1] by (auto split: if_splits)
    obtain res w3 where g: "target_values_get read_a1 w2 = (res, w3)"
      by (cases "target_values_get read_a1 w2")
    have l3: "ledger_file w3 = ledger_file w"
      using g l2 target_values_get_ledger_file [of read_a1 w2] by simp
    obtain ok4 w4 where u: "target_values_update 0 [headers] w3 = (ok4, w4)"
      by (cases "target_values_update 0 [headers] w3")
    have l4: "ledger_file w4 = ledger_file w"
      using u l3 target_values_update_ledger_file [of 0 "[headers]" w3] by simp
    show ?thesis
      using m Some a g u l2 l3 l4
      by (cases ok; cases res; cases ok4) (simp_all add: prepare_target_sheet_def)
  qed
qed

lemma flush_raised_keeps_ledger_file:
  "flush L st w = Raised e w' \<Longrightarrow> ledger_file w' = ledger_file w"
  using prepare_target_sheet_ledger_file [of "the (master_header_with_company st)" w]
  by (auto simp: flush_def Let_def split: if_splits outcome.splits)

text \<open>
  C1. The ledger is extended and saved after \<^verbatim>\<open>append_rows\<close> has returned, but
  \<^verbatim>\<open>append_rows\<close> returns normally when a call fails. Here the destination holds a
  header and one row, one source has one new row, and the fifth call on the destination,
  the insertion of the blank rows, fails: the destination is left as it was, no row was
  written, and yet the fingerprint of the row is saved to the ledger file.
\<close>

theorem ledger_saved_after_failed_write:
  "main_cycle L (example_service [(''a'', ''Acme'', [[''h''], [''x'']])])
      (example_world [\<lparr>sheetId = 0, title = ''Sheet1'', grid = [[''h'', ''Company Name''], [''old'', ''Acme'']]\<rparr>]
         [False, False, False, False, True])
    = Returned ()
       \<lparr>target = [\<lparr>sheetId = 0, title = ''Sheet1'', grid = [[''h'', ''Company Name''], [''old'', ''Acme'']]\<rparr>],
        ledger_file = Some (json_dumps L [(''a_0'', [sha256_hexdigest L ''x''])]),
        faults = [],
        log = [Slept 3, Saved [(''a_0'', [sha256_hexdigest L ''x''])], Slept (4 * 60 * 60)]\<rparr>"
  by code_simp

text \<open>
  C6. A second cycle on unchanged sources does not always find zero new rows. There
  are 27 sources; the first 26 have one data row each and the last one has none. The
  first cycle writes the rows of the sources 1 to 25 after source 25 and saves the
  ledger \<open>d\<close> of their fingerprints; the row of source 26 is pushed into the batch, but
  the last source leaves the loop body before the batch write, so that row is neither
  written nor recorded. The loop of a second cycle, started from the ledger \<open>d\<close> in
  the world the first cycle left and on the same catalog, classifies the row of source
  26 as new again (and, for the same reason, does not write it either).
\<close>

theorem second_cycle_finds_row_again:
  "(let S = example_service (numbered_sources 26 @ [(''27'', ''Acme'', [[''h'']])]);
        w1 = world_of (main_cycle L S (example_world [\<lparr>sheetId = 0, title = ''Sheet1'', grid = []\<rparr>] []));
        d = map (\<lambda>i. (str_nat i @ ''_0'', [sha256_hexdigest L (str_nat i)])) [1..<26];
        source_infos = map (\<lambda>i. (''https://x/spreadsheets/d/'' @ str_nat i, ''Acme'')) [1..<28]
    in ledger_file w1 = Some (json_dumps L d) \<and>
       map brief (log w1)
         = replicate 25 (Slept 3) @ [Wrote_values 0 [], Inserted_rows 0 1 26, Wrote_values 1 [], Saved []]
           @ [Slept 3, Slept (4 * 60 * 60)] \<and>
       get_source_sheet_urls S = Inr source_infos \<and>
       (case main_loop L S 27 1 source_infos
               \<lparr>processed_hashes = d, all_new_rows_for_upload = [], master_header_with_company = None,
                newly_processed_this_run = [], headers_prepared_this_run = False\<rparr> w1 of
          Returned st w2 \<Rightarrow>
            all_new_rows_for_upload st = [[''26'', ''Acme'']] \<and>
            map_of (newly_processed_this_run st) ''26_0'' = Some [sha256_hexdigest L ''26''] \<and>
            log w2 = log w1 @ replicate 26 (Slept 3)
        | Raised e w2 \<Rightarrow> False))"
  by code_simp

end
